theory Spec2Isabelle
  imports Complex_Main "HOL-Library.Sublist" "HOL-Library.Word"
begin

unbundle bit_operations_syntax

section \<open>Data model of \<^verbatim>\<open>main.py\<close>\<close>

text \<open>
  A \<^verbatim>\<open>datetime\<close> is a calendar day (its ordinal) and the microseconds since midnight.
  The program only ever compares the \<^verbatim>\<open>.date()\<close> parts. The database stores a
  timestamp as text and \<^verbatim>\<open>datetime.fromisoformat\<close> reads it back; the model keeps
  the value itself.
\<close>

record datetime =
  day :: int
  micros :: nat

definition date :: "datetime \<Rightarrow> int" where
  "date d = day d"

text \<open>The two tables created by \<^verbatim>\<open>init_database\<close>, rows in insertion order.\<close>

record user_row =
  u_id :: int
  u_email :: string
  u_password_hash :: string
  u_tier :: string
  u_created_at :: datetime
  u_message_count :: int
  u_last_reset :: datetime

record message_row =
  m_id :: int
  m_user_id :: int
  m_message :: string
  m_response :: string
  m_tier :: string
  m_timestamp :: datetime

record database =
  users :: "user_row list"
  messages :: "message_row list"

text \<open>
  \<^verbatim>\<open>CREATE TABLE IF NOT EXISTS\<close>: a database file that is not there yet starts with
  two empty tables, an existing one is left as it is.
\<close>

definition init_database :: "database option \<Rightarrow> database" where
  "init_database file =
     (case file of None \<Rightarrow> \<lparr>users = [], messages = []\<rparr> | Some db \<Rightarrow> db)"

text \<open>The request bodies (pydantic models).\<close>

record QueryRequest =
  query :: string
  tier :: string
  user_id :: "int option"

record UserRegistration =
  reg_email :: string
  reg_password :: string

record UserLogin =
  login_email :: string
  login_password :: string

text \<open>
  What a request reads from outside the program: the wall clock (\<^verbatim>\<open>datetime.now()\<close>),
  the database's \<^verbatim>\<open>CURRENT_TIMESTAMP\<close>, and the successive results of
  \<^verbatim>\<open>random.random()\<close>, which are numbers in \<open>[0, 1)\<close>. Floating-point numbers are
  modelled as reals.
\<close>

record env =
  now :: datetime
  current_timestamp :: datetime
  random :: "nat \<Rightarrow> real"

text \<open>
  Errors: the \<^verbatim>\<open>HTTPException\<close> the handlers raise on purpose (status code and
  detail), and the \<^verbatim>\<open>KeyError\<close> of a failed dictionary lookup.
\<close>

datatype error = HTTPException nat string | KeyError string

record ai_response =
  response :: string
  confidence :: real
  r_tier :: string
  processing_time :: real
  timestamp :: datetime

section \<open>Strings\<close>

text \<open>
  A character of the model is a code point below 256. \<^verbatim>\<open>str.lower\<close> on these maps
  \<open>A..Z\<close> and the Latin-1 capitals (192..222 except the multiplication sign 215) to
  the code point 32 above and leaves the rest alone.
\<close>

definition lower_char :: "char \<Rightarrow> char" where
  "lower_char c =
     (let n = (of_char c :: nat)
      in if (65 \<le> n \<and> n \<le> 90) \<or> (192 \<le> n \<and> n \<le> 222 \<and> n \<noteq> 215)
         then char_of (n + 32) else c)"

definition lower :: "string \<Rightarrow> string" where
  "lower s = map lower_char s"

text \<open>\<^verbatim>\<open>any(word in s for word in words)\<close>: some word is a contiguous part of \<open>s\<close>.\<close>

definition any_in :: "string list \<Rightarrow> string \<Rightarrow> bool" where
  "any_in words s = list_ex (\<lambda>word. sublist word s) words"

fun str_nat :: "nat \<Rightarrow> string" where
  "str_nat n =
     (if n < 10 then [char_of (48 + n)]
      else str_nat (n div 10) @ [char_of (48 + n mod 10)])"

declare str_nat.simps [simp del]

definition str_int :: "int \<Rightarrow> string" where
  "str_int i = (if i < 0 then CHR ''-'' # str_nat (nat (- i)) else str_nat (nat i))"

text \<open>\<^verbatim>\<open>str(e)\<close> of an exception, as it is put into the detail of a 500 response.\<close>

fun str_error :: "error \<Rightarrow> string" where
  "str_error (KeyError k) = [CHR 0x27] @ k @ [CHR 0x27]"
| "str_error (HTTPException code detail) = detail"

section \<open>Dictionaries\<close>

text \<open>\<^verbatim>\<open>d[k]\<close> raises \<^verbatim>\<open>KeyError\<close> on a missing key, \<^verbatim>\<open>d.get(k, v)\<close> returns \<open>v\<close>.\<close>

definition getitem :: "(string \<times> 'a) list \<Rightarrow> string \<Rightarrow> error + 'a" where
  "getitem d k = (case map_of d k of None \<Rightarrow> Inl (KeyError k) | Some v \<Rightarrow> Inr v)"

definition get_default :: "(string \<times> 'a) list \<Rightarrow> string \<Rightarrow> 'a \<Rightarrow> 'a" where
  "get_default d k v = (case map_of d k of None \<Rightarrow> v | Some w \<Rightarrow> w)"

section \<open>SHA-256\<close>

text \<open>
  \<^verbatim>\<open>hash_password\<close> calls the standard library: \<^verbatim>\<open>str.encode\<close> (UTF-8, which
  for a code point below 256 is one or two bytes) and \<^verbatim>\<open>hashlib.sha256\<close> (FIPS 180-4)
  with its lower-case hexadecimal digest.
\<close>

definition encode :: "string \<Rightarrow> 8 word list" where
  "encode s = concat (map (\<lambda>c. let n = (of_char c :: nat)
       in if n < 128 then [word_of_nat n]
          else [word_of_nat (192 + n div 64), word_of_nat (128 + n mod 64)]) s)"

text \<open>
  The constants of the standard, in decimal: the round constants are the first 32 bits of
  the fractional parts of the cube roots of the first 64 primes, the initial hash value
  those of the square roots of the first 8 primes.
\<close>

definition sha256_K :: "32 word list" where
  "sha256_K = [
     1116352408, 1899447441, 3049323471, 3921009573, 961987163, 1508970993,
     2453635748, 2870763221, 3624381080, 310598401, 607225278, 1426881987,
     1925078388, 2162078206, 2614888103, 3248222580, 3835390401, 4022224774,
     264347078, 604807628, 770255983, 1249150122, 1555081692, 1996064986,
     2554220882, 2821834349, 2952996808, 3210313671, 3336571891, 3584528711,
     113926993, 338241895, 666307205, 773529912, 1294757372, 1396182291,
     1695183700, 1986661051, 2177026350, 2456956037, 2730485921, 2820302411,
     3259730800, 3345764771, 3516065817, 3600352804, 4094571909, 275423344,
     430227734, 506948616, 659060556, 883997877, 958139571, 1322822218,
     1537002063, 1747873779, 1955562222, 2024104815, 2227730452, 2361852424,
     2428436474, 2756734187, 3204031479, 3329325298]"

definition sha256_H0 :: "32 word list" where
  "sha256_H0 = [
     1779033703, 3144134277, 1013904242, 2773480762,
     1359893119, 2600822924, 528734635, 1541459225]"

definition sha256_pad :: "8 word list \<Rightarrow> 8 word list" where
  "sha256_pad bs =
     (let l = length bs;
          z = (55 + 64 - l mod 64) mod 64;
          len = (word_of_nat (8 * l) :: 64 word)
      in bs @ [0x80] @ replicate z 0 @
         map (\<lambda>i. ucast (drop_bit (8 * (7 - i)) len)) [0..<8])"

fun be32 :: "8 word list \<Rightarrow> 32 word list" where
  "be32 (a # b # c # d # rest) =
     (push_bit 24 (ucast a) OR push_bit 16 (ucast b) OR push_bit 8 (ucast c) OR ucast d) # be32 rest"
| "be32 _ = []"

fun blocks :: "nat \<Rightarrow> 32 word list \<Rightarrow> 32 word list list" where
  "blocks 0 ws = []"
| "blocks (Suc n) ws = take 16 ws # blocks n (drop 16 ws)"

fun sha256_schedule :: "nat \<Rightarrow> 32 word list \<Rightarrow> 32 word list" where
  "sha256_schedule 0 w = w"
| "sha256_schedule (Suc n) w =
     (let l = length w;
          x = w ! (l - 15); y = w ! (l - 2);
          s0 = word_rotr 7 x XOR word_rotr 18 x XOR drop_bit 3 x;
          s1 = word_rotr 17 y XOR word_rotr 19 y XOR drop_bit 10 y
      in sha256_schedule n (w @ [w ! (l - 16) + s0 + w ! (l - 7) + s1]))"

fun sha256_round :: "32 word \<times> 32 word \<Rightarrow> 32 word list \<Rightarrow> 32 word list" where
  "sha256_round (k, w) [a, b, c, d, e, f, g, h] =
     (let S1 = word_rotr 6 e XOR word_rotr 11 e XOR word_rotr 25 e;
          ch = (e AND f) XOR (NOT e AND g);
          t1 = h + S1 + ch + k + w;
          S0 = word_rotr 2 a XOR word_rotr 13 a XOR word_rotr 22 a;
          maj = (a AND b) XOR (a AND c) XOR (b AND c);
          t2 = S0 + maj
      in [t1 + t2, a, b, c, d + t1, e, f, g])"
| "sha256_round _ s = s"

definition sha256_block :: "32 word list \<Rightarrow> 32 word list \<Rightarrow> 32 word list" where
  "sha256_block blk hs =
     map2 (+) hs (fold sha256_round (zip sha256_K (sha256_schedule 48 blk)) hs)"

definition sha256 :: "8 word list \<Rightarrow> 32 word list" where
  "sha256 bs =
     (let p = sha256_pad bs
      in fold sha256_block (blocks (length p div 64) (be32 p)) sha256_H0)"

definition hex_digit :: "nat \<Rightarrow> char" where
  "hex_digit n = (if n < 10 then char_of (48 + n) else char_of (87 + n))"

definition hexdigest :: "32 word list \<Rightarrow> string" where
  "hexdigest ws =
     concat (map (\<lambda>w. map (\<lambda>i. hex_digit (unat (drop_bit (4 * (7 - i)) w AND 15))) [0..<8]) ws)"

text \<open>\<^verbatim>\<open>hashlib.sha256(password.encode()).hexdigest()\<close>\<close>

definition hash_password :: "string \<Rightarrow> string" where
  "hash_password password = hexdigest (sha256 (encode password))"


section \<open>The response generator\<close>

definition responses :: "(string \<times> (string \<times> string) list) list" where
  "responses = [
     (''terrestrial'', [
        (''greeting'', ''Hello! I'' @ [CHR 0x27] @ ''m Synova Terrestrial, your free AI assistant. How can I help you today?''),
        (''help'', ''I can help with basic questions and simple conversations. For advanced features, consider upgrading to Aerial or Celestial!''),
        (''features'', ''Free tier includes: Basic AI responses, ethical guidelines, and 50 messages per day. Upgrade for more features!''),
        (''upgrade'', ''Ready to unlock more power? Aerial ($19/month) offers unlimited messages and advanced reasoning. Celestial ($49/month) includes quantum predictions!''),
        (''default'', ''Thank you for your question. As a free tier user, I provide basic assistance. For advanced analysis, consider upgrading!'')]),
     (''aerial'', [
        (''greeting'', ''Welcome to Synova Aerial! I'' @ [CHR 0x27] @ ''m your advanced AI assistant with enhanced reasoning capabilities.''),
        (''analysis'', ''Using advanced neuro-symbolic reasoning to analyze your request...''),
        (''prediction'', ''Based on temporal analysis and pattern recognition, here are my insights:''),
        (''default'', ''I'' @ [CHR 0x27] @ ''m analyzing this with advanced AI techniques including pattern recognition and contextual reasoning.'')]),
     (''celestial'', [
        (''greeting'', ''Greetings! I'' @ [CHR 0x27] @ ''m Synova Celestial with full quantum-enhanced capabilities at your service.''),
        (''quantum'', ''Applying quantum-inspired algorithms for maximum prediction accuracy...''),
        (''temporal'', ''Using temporal weave analysis to understand context and predict outcomes...''),
        (''default'', ''Engaging full quantum-enhanced processing with neuro-symbolic fusion for optimal results.'')])]"

text \<open>\<^verbatim>\<open>random.uniform(a, b)\<close> is \<^verbatim>\<open>a + (b - a) * random()\<close>.\<close>

definition uniform :: "real \<Rightarrow> real \<Rightarrow> real \<Rightarrow> real" where
  "uniform a b u = a + (b - a) * u"

text \<open>
  \<^verbatim>\<open>SynovaAI.generate_response\<close>. Both dictionary displays draw their three random
  numbers before the tier is looked up in them; \<^verbatim>\<open>time.sleep\<close> only delays.
\<close>

definition generate_response :: "env \<Rightarrow> string \<Rightarrow> string \<Rightarrow> error + ai_response" where
  "generate_response e q t =
     (let processing_times = [(''terrestrial'', uniform 2 4 (random e 0)),
                              (''aerial'', uniform 1 2 (random e 1)),
                              (''celestial'', uniform 0.5 1 (random e 2))]
      in case getitem processing_times t of
           Inl err \<Rightarrow> Inl err
         | Inr slept \<Rightarrow>
      (let query_lower = lower q
       in case getitem responses t of
            Inl err \<Rightarrow> Inl err
          | Inr tier_responses \<Rightarrow>
      (case (if any_in [''hello'', ''hi'', ''hey'', ''greeting''] query_lower
             then getitem tier_responses ''greeting''
             else if any_in [''help'', ''what can you do''] query_lower
             then (case getitem tier_responses ''default'' of
                     Inl err \<Rightarrow> Inl err
                   | Inr d \<Rightarrow> Inr (get_default tier_responses ''help'' d))
             else if any_in [''feature'', ''upgrade'', ''tier''] query_lower
             then (case getitem tier_responses ''default'' of
                     Inl err \<Rightarrow> Inl err
                   | Inr d \<Rightarrow> Inr (get_default tier_responses ''upgrade'' d))
             else if t = ''aerial'' \<and> any_in [''analyze'', ''analysis''] query_lower
             then getitem tier_responses ''analysis''
             else if t = ''celestial'' \<and> any_in [''quantum'', ''predict''] query_lower
             then getitem tier_responses ''quantum''
             else getitem tier_responses ''default'') of
         Inl err \<Rightarrow> Inl err
       | Inr resp \<Rightarrow>
      (case getitem [(''terrestrial'', uniform 0.6 0.8 (random e 3)),
                     (''aerial'', uniform 0.75 0.9 (random e 4)),
                     (''celestial'', uniform 0.85 0.95 (random e 5))] t of
         Inl err \<Rightarrow> Inl err
       | Inr conf \<Rightarrow>
           Inr \<lparr>response = resp, confidence = conf, r_tier = t,
                processing_time = slept, timestamp = now e\<rparr>))))"

section \<open>The rate limiter\<close>

text \<open>\<^verbatim>\<open>SELECT ... FROM users WHERE id = ?\<close> with \<^verbatim>\<open>fetchone\<close>: the first such row.\<close>

definition select_user :: "database \<Rightarrow> int \<Rightarrow> user_row option" where
  "select_user db uid = find (\<lambda>u. u_id u = uid) (users db)"

text \<open>\<^verbatim>\<open>UPDATE users SET ... WHERE id = ?\<close>: every row with that id.\<close>

definition update_user :: "(user_row \<Rightarrow> user_row) \<Rightarrow> int \<Rightarrow> database \<Rightarrow> database" where
  "update_user f uid db = db\<lparr>users := map (\<lambda>u. if u_id u = uid then f u else u) (users db)\<rparr>"

text \<open>
  \<^verbatim>\<open>verify_user_limits\<close> returns the database it leaves (the reset is committed before
  it returns) and whether the user may proceed. Its two readings of the clock, for the
  comparison and for the stored timestamp, are taken as one.
\<close>

definition verify_user_limits :: "env \<Rightarrow> database \<Rightarrow> int \<Rightarrow> string \<Rightarrow> database \<times> bool" where
  "verify_user_limits e db uid t =
     (if t \<noteq> ''terrestrial'' then (db, True)
      else case select_user db uid of
             None \<Rightarrow> (db, False)
           | Some u \<Rightarrow>
               if date (now e) > date (u_last_reset u)
               then (update_user (\<lambda>r. r\<lparr>u_message_count := 0, u_last_reset := now e\<rparr>) uid db,
                     (0::int) < 50)
               else (db, u_message_count u < 50))"

section \<open>The endpoints\<close>

text \<open>Python truth of an \<^verbatim>\<open>Optional[int]\<close>: neither \<^verbatim>\<open>None\<close> nor zero.\<close>

fun truthy :: "int option \<Rightarrow> bool" where
  "truthy None = False"
| "truthy (Some n) = (n \<noteq> 0)"

text \<open>The row id an \<^verbatim>\<open>INTEGER PRIMARY KEY\<close> gets: one above the largest, 1 in an empty table.\<close>

definition next_rowid :: "int list \<Rightarrow> int" where
  "next_rowid ids = (if ids = [] then 1 else Max (set ids) + 1)"

definition max_lengths :: "(string \<times> int) list" where
  "max_lengths = [(''terrestrial'', 200), (''aerial'', 2000), (''celestial'', 8000)]"

definition insert_message :: "env \<Rightarrow> int \<Rightarrow> string \<Rightarrow> string \<Rightarrow> string \<Rightarrow> database \<Rightarrow> database" where
  "insert_message e uid msg resp t db =
     db\<lparr>messages := messages db @
          [\<lparr>m_id = next_rowid (map m_id (messages db)), m_user_id = uid, m_message = msg,
            m_response = resp, m_tier = t, m_timestamp = current_timestamp e\<rparr>]\<rparr>"

text \<open>
  \<^verbatim>\<open>process_query\<close>. The length check and the rate check are outside the
  \<^verbatim>\<open>try\<close>, so a \<^verbatim>\<open>KeyError\<close> of \<^verbatim>\<open>max_lengths[request.tier]\<close> leaves the handler
  as it is; an exception inside the \<^verbatim>\<open>try\<close> becomes a 500 response.
\<close>

definition process_query :: "env \<Rightarrow> database \<Rightarrow> QueryRequest \<Rightarrow> database \<times> (error + ai_response)" where
  "process_query e db request =
     (case getitem max_lengths (tier request) of
        Inl err \<Rightarrow> (db, Inl err)
      | Inr m \<Rightarrow>
         (if int (length (query request)) > m
          then (db, Inl (HTTPException 400
                  (''Query too long for '' @ tier request @ '' tier. Maximum '' @ str_int m
                   @ '' characters.'')))
          else
           (case (if truthy (user_id request) \<and> tier request = ''terrestrial''
                  then verify_user_limits e db (the (user_id request)) (tier request)
                  else (db, True)) of
              (db1, allowed) \<Rightarrow>
               (if \<not> allowed
                then (db1, Inl (HTTPException 429
                       ''Daily message limit reached. Please upgrade or try again tomorrow.''))
                else
                 (case generate_response e (query request) (tier request) of
                    Inl err \<Rightarrow>
                      (db1, Inl (HTTPException 500 (''AI processing error: '' @ str_error err)))
                  | Inr ai \<Rightarrow>
                      ((if truthy (user_id request)
                        then
                         (let db2 = insert_message e (the (user_id request)) (query request)
                                      (response ai) (tier request) db1
                          in (if tier request = ''terrestrial''
                              then update_user (\<lambda>r. r\<lparr>u_message_count := u_message_count r + 1\<rparr>)
                                     (the (user_id request)) db2
                              else db2))
                        else db1),
                       Inr ai))))))"

definition register_user :: "env \<Rightarrow> database \<Rightarrow> UserRegistration \<Rightarrow> database \<times> (error + int)" where
  "register_user e db user =
     (case find (\<lambda>u. u_email u = reg_email user) (users db) of
        Some u \<Rightarrow> (db, Inl (HTTPException 400 ''User already exists''))
      | None \<Rightarrow>
          let password_hash = hash_password (reg_password user);
              new_id = next_rowid (map u_id (users db))
          in (db\<lparr>users := users db @
                   [\<lparr>u_id = new_id, u_email = reg_email user, u_password_hash = password_hash,
                     u_tier = ''terrestrial'', u_created_at = current_timestamp e,
                     u_message_count = 0, u_last_reset = current_timestamp e\<rparr>]\<rparr>,
              Inr new_id))"

text \<open>\<^verbatim>\<open>login_user\<close> returns the id, the tier and the message count of the matching row.\<close>

definition login_user :: "database \<Rightarrow> UserLogin \<Rightarrow> error + int \<times> string \<times> int" where
  "login_user db user =
     (let password_hash = hash_password (login_password user)
      in case find (\<lambda>u. u_email u = login_email user \<and> u_password_hash u = password_hash)
                (users db) of
           None \<Rightarrow> Inl (HTTPException 401 ''Invalid credentials'')
         | Some u \<Rightarrow> Inr (u_id u, u_tier u, u_message_count u))"

text \<open>\<^verbatim>\<open>get_stats\<close>: the number of users of each stored tier and the number of messages.\<close>

definition get_stats :: "database \<Rightarrow> (string \<times> nat) list \<times> nat" where
  "get_stats db =
     (map (\<lambda>t. (t, length (filter (\<lambda>u. u_tier u = t) (users db)))) (remdups (map u_tier (users db))),
      length (messages db))"

text \<open>One call of the HTTP interface, and what it answers.\<close>

datatype call =
  Root
| Query QueryRequest
| Register UserRegistration
| Login UserLogin
| HealthCheck
| GetStats

datatype reply =
  Welcome
| Answer ai_response
| Registered int
| LoggedIn int string int
| Healthy datetime
| Statistics "(string \<times> nat) list" nat

fun api :: "env \<Rightarrow> database \<Rightarrow> call \<Rightarrow> database \<times> (error + reply)" where
  "api e db Root = (db, Inr Welcome)"
| "api e db (Query request) = map_prod id (map_sum id Answer) (process_query e db request)"
| "api e db (Register user) = map_prod id (map_sum id Registered) (register_user e db user)"
| "api e db (Login user) =
     (db, map_sum id (\<lambda>(uid, t, n). LoggedIn uid t n) (login_user db user))"
| "api e db HealthCheck = (db, Inr (Healthy (now e)))"
| "api e db GetStats = (db, Inr (case get_stats db of (by_tier, n) \<Rightarrow> Statistics by_tier n))"

section \<open>Histories of calls\<close>

text \<open>
  The server handles one call after the other; each call comes with what it reads from
  outside. \<open>run\<close> is the database after a list of calls.
\<close>

fun run :: "database \<Rightarrow> (env \<times> call) list \<Rightarrow> database" where
  "run db [] = db"
| "run db ((e, c) # rest) = run (fst (api e db c)) rest"

text \<open>
  A successful free-tier query of a user: a query with that user id and the tier
  terrestrial that is answered. \<open>successes\<close> counts them along a list of calls.
\<close>

definition free_success :: "int \<Rightarrow> env \<Rightarrow> database \<Rightarrow> call \<Rightarrow> bool" where
  "free_success uid e db c =
     (case c of
        Query request \<Rightarrow>
          user_id request = Some uid \<and> tier request = ''terrestrial''
          \<and> \<not> isl (snd (process_query e db request))
      | _ \<Rightarrow> False)"

fun successes :: "int \<Rightarrow> database \<Rightarrow> (env \<times> call) list \<Rightarrow> nat" where
  "successes uid db [] = 0"
| "successes uid db ((e, c) # rest) =
     (if free_success uid e db c then 1 else 0) + successes uid (fst (api e db c)) rest"

section \<open>The selection rule in the words of the specification\<close>

text \<open>
  The keyword sets in their priority order, each with the key of the canned response it
  selects: greeting, help, upgrade inquiry, then the keyword set of the tier. The response
  is the one of the first set with a word in the lower-cased text, the default response
  when there is none or when the tier has no response under that key.
\<close>

definition keyword_sets :: "string \<Rightarrow> (string list \<times> string) list" where
  "keyword_sets t =
     [([''hello'', ''hi'', ''hey'', ''greeting''], ''greeting''),
      ([''help'', ''what can you do''], ''help''),
      ([''feature'', ''upgrade'', ''tier''], ''upgrade'')]
     @ (if t = ''aerial'' then [([''analyze'', ''analysis''], ''analysis'')] else [])
     @ (if t = ''celestial'' then [([''quantum'', ''predict''], ''quantum'')] else [])"

definition first_match_response :: "string \<Rightarrow> string \<Rightarrow> string option" where
  "first_match_response t q =
     (case map_of responses t of
        None \<Rightarrow> None
      | Some canned \<Rightarrow>
          (case map_of canned ''default'' of
             None \<Rightarrow> None
           | Some dflt \<Rightarrow>
               Some (case find (\<lambda>(kws, key). any_in kws (lower q)) (keyword_sets t) of
                       None \<Rightarrow> dflt
                     | Some (kws, key) \<Rightarrow> get_default canned key dflt)))"

section \<open>The message log\<close>


section \<open>Notions of the proofs\<close>

text \<open>
  The invariant of the users table: ids start at 1 and counters are not negative.
  \<open>tracked D uid k\<close>: the user is stored, was last reset on day \<open>D\<close> or later and has
  a counter of at least \<open>k\<close>. \<open>admitted\<close> is the rate check on a stored row and
  \<open>after_query\<close> the row after a free-tier query.
\<close>

definition db_ok :: "database \<Rightarrow> bool" where
  "db_ok db = list_all (\<lambda>u. 1 \<le> u_id u \<and> 0 \<le> u_message_count u) (users db)"

definition tracked :: "int \<Rightarrow> int \<Rightarrow> nat \<Rightarrow> database \<Rightarrow> bool" where
  "tracked D uid k db =
     (case select_user db uid of
        None \<Rightarrow> False
      | Some u \<Rightarrow> D \<le> date (u_last_reset u) \<and> int k \<le> u_message_count u)"

definition after_query :: "env \<Rightarrow> user_row \<Rightarrow> user_row" where
  "after_query e u =
     (if date (u_last_reset u) < date (now e)
      then u\<lparr>u_message_count := 1, u_last_reset := now e\<rparr>
      else if u_message_count u < 50 then u\<lparr>u_message_count := u_message_count u + 1\<rparr>
      else u)"

definition admitted :: "env \<Rightarrow> user_row \<Rightarrow> bool" where
  "admitted e u \<longleftrightarrow> date (u_last_reset u) < date (now e) \<or> u_message_count u < 50"

section \<open>Example inputs\<close>

text \<open>A clock reading on a given day, with every random draw equal to one half.\<close>

definition env_at :: "int \<Rightarrow> env" where
  "env_at d = \<lparr>now = \<lparr>day = d, micros = 0\<rparr>, current_timestamp = \<lparr>day = d, micros = 0\<rparr>,
              random = (\<lambda>i. 1 / 2)\<rparr>"

definition alice :: UserRegistration where
  "alice = \<lparr>reg_email = ''alice@example.com'', reg_password = ''pw''\<rparr>"

definition bob :: UserRegistration where
  "bob = \<lparr>reg_email = ''bob@example.com'', reg_password = ''pw''\<rparr>"

definition db_alice :: database where
  "db_alice = fst (register_user (env_at 1) (init_database None) alice)"

definition db_alice_bob :: database where
  "db_alice_bob = fst (register_user (env_at 1) db_alice bob)"

text \<open>A free-tier user who has used up the quota of day 1.\<close>

definition carol_row :: user_row where
  "carol_row = \<lparr>u_id = 1, u_email = ''carol@example.com'', u_password_hash = hash_password ''pw'',
                u_tier = ''terrestrial'', u_created_at = \<lparr>day = 1, micros = 0\<rparr>,
                u_message_count = 50, u_last_reset = \<lparr>day = 1, micros = 0\<rparr>\<rparr>"

definition db_carol :: database where
  "db_carol = \<lparr>users = [carol_row], messages = []\<rparr>"

definition hi_request :: QueryRequest where
  "hi_request = \<lparr>query = ''hi'', tier = ''terrestrial'', user_id = Some 1\<rparr>"

section \<open>Lemmas about lookups and updates\<close>

lemma getitem_max_lengths:
  "getitem max_lengths t =
     (if t = ''terrestrial'' then Inr 200 else if t = ''aerial'' then Inr 2000
      else if t = ''celestial'' then Inr 8000 else Inl (KeyError t))"
  by (simp add: getitem_def max_lengths_def)

lemma str_int_200: "str_int 200 = ''200''"
  by code_simp

lemma find_app:
  "find P (xs @ ys) = (case find P xs of None \<Rightarrow> find P ys | Some x \<Rightarrow> Some x)"
  by (induction xs) auto

lemma find_map_same_id:
  assumes "\<And>r. u_id (f r) = u_id r"
  shows "find (\<lambda>u. u_id u = uid') (map (\<lambda>u. if u_id u = uid then f u else u) xs) =
           (if uid' = uid then map_option f (find (\<lambda>u. u_id u = uid') xs)
            else find (\<lambda>u. u_id u = uid') xs)"
  by (induction xs) (auto simp add: assms)

lemma select_user_update_user:
  assumes "\<And>r. u_id (f r) = u_id r"
  shows "select_user (update_user f uid db) uid' =
           (if uid' = uid then map_option f (select_user db uid') else select_user db uid')"
  by (simp add: select_user_def update_user_def find_map_same_id [OF assms])

lemma messages_update_user [simp]: "messages (update_user f uid db) = messages db"
  by (simp add: update_user_def)

lemma users_insert_message [simp]: "users (insert_message e uid msg resp t db) = users db"
  by (simp add: insert_message_def)

lemma select_user_insert_message [simp]:
  "select_user (insert_message e uid msg resp t db) uid' = select_user db uid'"
  by (simp add: select_user_def)

lemma generate_response_terrestrial:
  "\<exists>ai. generate_response e q ''terrestrial'' = Inr ai"
  by (simp add: generate_response_def getitem_def responses_def Let_def)

lemma generate_response_aerial:
  "\<exists>ai. generate_response e q ''aerial'' = Inr ai"
  by (simp add: generate_response_def getitem_def responses_def Let_def)

lemma generate_response_celestial:
  "\<exists>ai. generate_response e q ''celestial'' = Inr ai"
  by (simp add: generate_response_def getitem_def responses_def Let_def)

lemma next_rowid_fresh: "next_rowid ids \<notin> set ids"
proof
  assume a: "next_rowid ids \<in> set ids"
  then have "ids \<noteq> []" by auto
  moreover from a have "next_rowid ids \<le> Max (set ids)" by simp
  ultimately show False by (simp add: next_rowid_def)
qed

lemma find_email_None: "find (\<lambda>u. u_email u = a) xs = None \<longleftrightarrow> a \<notin> u_email ` set xs"
  by (auto simp add: find_None_iff)

lemma find_id_append_fresh:
  assumes "uid \<notin> u_id ` set xs" and "u_id r = uid"
  shows "find (\<lambda>u. u_id u = uid) (xs @ r # ys) = Some r"
proof -
  have "find (\<lambda>u. u_id u = uid) xs = None"
    using assms(1) by (auto simp add: find_None_iff)
  then show ?thesis
    using assms(2) by (simp add: find_app)
qed

text \<open>The model of SHA-256 gives the digests that \<^verbatim>\<open>hashlib\<close> gives.\<close>

lemma hash_password_pw:
  "hash_password ''pw'' = ''30c952fab122c3f9759f02a6d95c3758b246b4fee239957b2d4fee46e26170c4''"
  by code_simp

lemma hash_password_wrong:
  "hash_password ''wrong'' = ''8810ad581e59f2bc3928b261707a71308f7e139eb04820366dc4d5c18d980225''"
  by code_simp

lemma users_db_alice:
  "users db_alice =
     [\<lparr>u_id = 1, u_email = ''alice@example.com'', u_password_hash = hash_password ''pw'',
       u_tier = ''terrestrial'', u_created_at = \<lparr>day = 1, micros = 0\<rparr>,
       u_message_count = 0, u_last_reset = \<lparr>day = 1, micros = 0\<rparr>\<rparr>]"
  by (simp add: db_alice_def register_user_def init_database_def alice_def env_at_def
      next_rowid_def)


section \<open>Length validation\<close>

text \<open>
  C5: a request whose tier is none of terrestrial, aerial and celestial makes
  \<^verbatim>\<open>process_query\<close> fail with the \<^verbatim>\<open>KeyError\<close> of \<^verbatim>\<open>max_lengths[request.tier]\<close>,
  outside its \<^verbatim>\<open>try\<close>: the handler answers with none of its own HTTP errors (400, 429,
  500), whatever the query, the user id and the database are, and writes nothing.
\<close>

theorem process_query_unknown_tier:
  assumes "tier request \<notin> {''terrestrial'', ''aerial'', ''celestial''}"
  shows "process_query e db request = (db, Inl (KeyError (tier request)))
         \<and> (\<forall>code detail. snd (process_query e db request) \<noteq> Inl (HTTPException code detail))"
  using assms by (simp add: process_query_def getitem_max_lengths)

theorem process_query_unknown_tier_witness:
  "''gold'' \<notin> {''terrestrial'', ''aerial'', ''celestial''}
   \<and> process_query (env_at 1) db_carol \<lparr>query = ''hello'', tier = ''gold'', user_id = Some 1\<rparr>
       = (db_carol, Inl (KeyError ''gold''))"
  using process_query_unknown_tier
          [of "\<lparr>query = ''hello'', tier = ''gold'', user_id = Some 1\<rparr>" "env_at 1" db_carol]
  by simp

text \<open>
  C2: a query longer than the maximum of its tier (200 for terrestrial, 2000 for aerial,
  8000 for celestial) is rejected by \<^verbatim>\<open>process_query\<close> with the 400 error. The answer
  does not depend on the clock or the random draws, so no response was generated, and the
  database is returned as it was.
\<close>

theorem process_query_too_long:
  assumes "(tier request, m) \<in> {(''terrestrial'', 200), (''aerial'', 2000), (''celestial'', 8000)}"
    and "int (length (query request)) > m"
  shows "process_query e db request =
           (db, Inl (HTTPException 400
              (''Query too long for '' @ tier request @ '' tier. Maximum '' @ str_int m
               @ '' characters.'')))"
  using assms by (auto simp add: process_query_def getitem_max_lengths)

theorem process_query_too_long_witness:
  "(''terrestrial'', 200) \<in> {(''terrestrial'', 200::int), (''aerial'', 2000), (''celestial'', 8000)}
   \<and> int (length (replicate 201 CHR ''x'')) > 200
   \<and> process_query (env_at 1) db_carol
        \<lparr>query = replicate 201 CHR ''x'', tier = ''terrestrial'', user_id = Some 1\<rparr>
       = (db_carol,
          Inl (HTTPException 400 ''Query too long for terrestrial tier. Maximum 200 characters.''))"
  using process_query_too_long
          [of "\<lparr>query = replicate 201 CHR ''x'', tier = ''terrestrial'', user_id = Some 1\<rparr>"
              200 "env_at 1" db_carol]
  by (simp add: str_int_200)

section \<open>The daily reset\<close>

lemma verify_new_day:
  assumes "select_user db uid = Some u" and "date (u_last_reset u) < date (now e)"
  shows "verify_user_limits e db uid ''terrestrial'' =
           (update_user (\<lambda>r. r\<lparr>u_message_count := 0, u_last_reset := now e\<rparr>) uid db, True)"
  using assms by (simp add: verify_user_limits_def)

text \<open>
  C4: when the stored last-reset date of a user is before today, the rate check of the
  free tier allows the request, and in the database it leaves, that user's message counter
  is 0 and the last-reset timestamp is the clock reading; other users and the messages
  are untouched. A free-tier query of that user (with a nonzero id and a text of at most
  200 characters) on the new day is therefore answered, whatever the counter was, and
  leaves the counter at 1.
\<close>

theorem verify_user_limits_new_day:
  assumes "select_user db uid = Some u" and "date (u_last_reset u) < date (now e)"
  shows "snd (verify_user_limits e db uid ''terrestrial'')
         \<and> select_user (fst (verify_user_limits e db uid ''terrestrial'')) uid
             = Some (u\<lparr>u_message_count := 0, u_last_reset := now e\<rparr>)
         \<and> (\<forall>other. other \<noteq> uid \<longrightarrow>
               select_user (fst (verify_user_limits e db uid ''terrestrial'')) other
                 = select_user db other)
         \<and> messages (fst (verify_user_limits e db uid ''terrestrial'')) = messages db
         \<and> (uid \<noteq> 0 \<and> user_id request = Some uid \<and> tier request = ''terrestrial''
              \<and> length (query request) \<le> 200 \<longrightarrow>
             (\<exists>ai. snd (process_query e db request) = Inr ai)
             \<and> map_option u_message_count (select_user (fst (process_query e db request)) uid)
                 = Some 1)"
proof -
  let ?reset = "\<lambda>r. r\<lparr>u_message_count := 0, u_last_reset := now e\<rparr>"
  let ?bump = "\<lambda>r. r\<lparr>u_message_count := u_message_count r + 1\<rparr>"
  have v: "verify_user_limits e db uid ''terrestrial'' = (update_user ?reset uid db, True)"
    by (rule verify_new_day [OF assms])
  have s: "select_user (update_user ?reset uid db) uid' =
             (if uid' = uid then map_option ?reset (select_user db uid') else select_user db uid')"
    for uid'
    by (rule select_user_update_user) simp
  have b: "select_user (update_user ?bump uid d) uid = map_option ?bump (select_user d uid)" for d
    by (simp add: select_user_update_user)
  have q: "(\<exists>ai. snd (process_query e db request) = Inr ai)
           \<and> map_option u_message_count (select_user (fst (process_query e db request)) uid) = Some 1"
    if r: "uid \<noteq> 0" "user_id request = Some uid" "tier request = ''terrestrial''"
      "length (query request) \<le> 200"
  proof -
    obtain ai where g: "generate_response e (query request) ''terrestrial'' = Inr ai"
      using generate_response_terrestrial by blast
    show ?thesis
      using r g assms(1) by (simp add: process_query_def getitem_max_lengths v b s)
  qed
  show ?thesis
    using q by (simp add: v s assms(1))
qed

theorem verify_user_limits_new_day_witness:
  "select_user db_carol 1 = Some carol_row
   \<and> date (u_last_reset carol_row) < date (now (env_at 2))
   \<and> u_message_count carol_row = 50
   \<and> snd (verify_user_limits (env_at 2) db_carol 1 ''terrestrial'')
   \<and> select_user (fst (verify_user_limits (env_at 2) db_carol 1 ''terrestrial'')) 1
       = Some (carol_row\<lparr>u_message_count := 0, u_last_reset := \<lparr>day = 2, micros = 0\<rparr>\<rparr>)
   \<and> map_option u_message_count
         (select_user (fst (process_query (env_at 2) db_carol
            \<lparr>query = ''hello'', tier = ''terrestrial'', user_id = Some 1\<rparr>)) 1) = Some 1"
proof -
  have h1: "select_user db_carol 1 = Some carol_row"
    by (simp add: select_user_def db_carol_def carol_row_def)
  have h2: "date (u_last_reset carol_row) < date (now (env_at 2))"
    by (simp add: carol_row_def env_at_def date_def)
  show ?thesis
    using h1 h2
      verify_user_limits_new_day [OF h1 h2,
        of "\<lparr>query = ''hello'', tier = ''terrestrial'', user_id = Some 1\<rparr>"]
    by (simp add: carol_row_def env_at_def)
qed

section \<open>Registration and login\<close>

text \<open>
  C6: registering an email that is already in the users table is rejected with the 400
  error ``User already exists'' and leaves the database as it was. Registering a fresh
  email succeeds: it returns an id that no stored user has and appends one row with that
  id and email; from then on, registering that email again is rejected.
\<close>

theorem register_user_duplicate_email:
  "(reg_email user \<in> u_email ` set (users db) \<longrightarrow>
      register_user e db user = (db, Inl (HTTPException 400 ''User already exists'')))
   \<and> (reg_email user \<notin> u_email ` set (users db) \<longrightarrow>
        (\<exists>uid row. snd (register_user e db user) = Inr uid
           \<and> uid \<notin> u_id ` set (users db)
           \<and> users (fst (register_user e db user)) = users db @ [row]
           \<and> u_id row = uid \<and> u_email row = reg_email user
           \<and> messages (fst (register_user e db user)) = messages db)
        \<and> (reg_email user' = reg_email user \<longrightarrow>
             register_user e' (fst (register_user e db user)) user' =
               (fst (register_user e db user), Inl (HTTPException 400 ''User already exists''))))"
proof (cases "find (\<lambda>u. u_email u = reg_email user) (users db)")
  case None
  then have fresh: "reg_email user \<notin> u_email ` set (users db)"
    by (simp add: find_email_None)
  have id_fresh: "next_rowid (map u_id (users db)) \<notin> u_id ` set (users db)"
    using next_rowid_fresh [of "map u_id (users db)"] by simp
  have again: "find (\<lambda>u. u_email u = reg_email user) (users db @ [r]) = Some r"
    if "u_email r = reg_email user" for r
    using None that by (simp add: find_app)
  show ?thesis
    using None fresh id_fresh by (auto simp add: register_user_def Let_def find_app)
next
  case (Some u)
  then have "reg_email user \<in> u_email ` set (users db)"
    using find_email_None [of "reg_email user" "users db"] by auto
  with Some show ?thesis
    by (simp add: register_user_def)
qed

theorem register_user_duplicate_email_witness:
  "reg_email alice \<in> u_email ` set (users db_alice)
   \<and> register_user (env_at 2) db_alice alice
       = (db_alice, Inl (HTTPException 400 ''User already exists''))
   \<and> reg_email bob \<notin> u_email ` set (users db_alice)
   \<and> snd (register_user (env_at 2) db_alice bob) = Inr 2
   \<and> register_user (env_at 3) (fst (register_user (env_at 2) db_alice bob)) bob
       = (fst (register_user (env_at 2) db_alice bob),
          Inl (HTTPException 400 ''User already exists''))"
proof -
  have h1: "reg_email alice \<in> u_email ` set (users db_alice)"
    by (simp add: users_db_alice alice_def)
  have h2: "reg_email bob \<notin> u_email ` set (users db_alice)"
    by (simp add: users_db_alice bob_def)
  have h3: "snd (register_user (env_at 2) db_alice bob) = Inr 2"
    by (simp add: register_user_def users_db_alice bob_def next_rowid_def)
  show ?thesis
    using h1 h2 h3
      register_user_duplicate_email [of alice db_alice "env_at 2" alice "env_at 2"]
      register_user_duplicate_email [of bob db_alice "env_at 2" bob "env_at 3"]
    by simp
qed

text \<open>
  C7: when no stored user has both the given email and the hash of the given password,
  \<^verbatim>\<open>login_user\<close> answers with the 401 error ``Invalid credentials'': the same error
  whether the email is stored with another password or not stored at all.
\<close>

theorem login_user_wrong_password:
  assumes "\<forall>u \<in> set (users db). u_email u = login_email user \<longrightarrow>
             u_password_hash u \<noteq> hash_password (login_password user)"
  shows "login_user db user = Inl (HTTPException 401 ''Invalid credentials'')"
proof -
  have "find (\<lambda>u. u_email u = login_email user
                \<and> u_password_hash u = hash_password (login_password user)) (users db) = None"
    using assms by (auto simp add: find_None_iff)
  then show ?thesis
    by (simp add: login_user_def)
qed

theorem login_user_wrong_password_witness:
  "login_user db_alice \<lparr>login_email = ''alice@example.com'', login_password = ''wrong''\<rparr>
     = Inl (HTTPException 401 ''Invalid credentials'')
   \<and> login_user db_alice \<lparr>login_email = ''dave@example.com'', login_password = ''pw''\<rparr>
       = Inl (HTTPException 401 ''Invalid credentials'')
   \<and> login_user db_alice \<lparr>login_email = ''alice@example.com'', login_password = ''pw''\<rparr>
       = Inr (1, ''terrestrial'', 0)"
proof -
  have h1: "\<forall>u \<in> set (users db_alice). u_email u = ''alice@example.com'' \<longrightarrow>
              u_password_hash u \<noteq> hash_password ''wrong''"
    by (simp add: users_db_alice hash_password_pw hash_password_wrong)
  have h2: "\<forall>u \<in> set (users db_alice). u_email u = ''dave@example.com'' \<longrightarrow>
              u_password_hash u \<noteq> hash_password ''pw''"
    by (simp add: users_db_alice)
  have h3: "login_user db_alice \<lparr>login_email = ''alice@example.com'', login_password = ''pw''\<rparr>
              = Inr (1, ''terrestrial'', 0)"
    by (simp add: login_user_def users_db_alice)
  show ?thesis
    using h1 h2 h3
      login_user_wrong_password
        [of db_alice "\<lparr>login_email = ''alice@example.com'', login_password = ''wrong''\<rparr>"]
      login_user_wrong_password
        [of db_alice "\<lparr>login_email = ''dave@example.com'', login_password = ''pw''\<rparr>"]
    by simp
qed

text \<open>
  C3, as the code has it: the stored credential is the SHA-256 digest of the password and
  of nothing else. Two users who register one after the other with the same password get
  the same stored hash, the hash of that password.
\<close>

theorem stored_hash_unsalted:
  assumes "register_user e1 db user1 = (db1, Inr uid1)"
    and "register_user e2 db1 user2 = (db2, Inr uid2)"
    and "reg_password user1 = reg_password user2"
  shows "map_option u_password_hash (select_user db2 uid1) = Some (hash_password (reg_password user1))
         \<and> map_option u_password_hash (select_user db2 uid2) = Some (hash_password (reg_password user1))"
proof -
  let ?row1 = "\<lparr>u_id = uid1, u_email = reg_email user1,
                 u_password_hash = hash_password (reg_password user1), u_tier = ''terrestrial'',
                 u_created_at = current_timestamp e1, u_message_count = 0,
                 u_last_reset = current_timestamp e1\<rparr>"
  let ?row2 = "\<lparr>u_id = uid2, u_email = reg_email user2,
                 u_password_hash = hash_password (reg_password user2), u_tier = ''terrestrial'',
                 u_created_at = current_timestamp e2, u_message_count = 0,
                 u_last_reset = current_timestamp e2\<rparr>"
  from assms(1) have u1: "users db1 = users db @ [?row1]"
    and i1: "uid1 = next_rowid (map u_id (users db))"
    by (auto simp add: register_user_def Let_def split: option.splits)
  from assms(2) have u2: "users db2 = users db1 @ [?row2]"
    and i2: "uid2 = next_rowid (map u_id (users db1))"
    by (auto simp add: register_user_def Let_def split: option.splits)
  have f1: "uid1 \<notin> u_id ` set (users db)"
    using next_rowid_fresh [of "map u_id (users db)"] by (simp add: i1)
  have f2: "uid2 \<notin> u_id ` set (users db1)"
    using next_rowid_fresh [of "map u_id (users db1)"] by (simp add: i2)
  have "select_user db2 uid1 = Some ?row1"
    using find_id_append_fresh [OF f1, of ?row1 "[?row2]"] by (simp add: select_user_def u1 u2)
  moreover have "select_user db2 uid2 = Some ?row2"
    using find_id_append_fresh [OF f2, of ?row2 "[]"] by (simp add: select_user_def u2)
  ultimately show ?thesis
    by (simp add: assms(3))
qed

theorem stored_hash_unsalted_witness:
  "register_user (env_at 1) (init_database None) alice = (db_alice, Inr 1)
   \<and> register_user (env_at 1) db_alice bob = (db_alice_bob, Inr 2)
   \<and> reg_password alice = reg_password bob
   \<and> map_option u_password_hash (select_user db_alice_bob 1) = Some (hash_password ''pw'')
   \<and> map_option u_password_hash (select_user db_alice_bob 2) = Some (hash_password ''pw'')"
proof -
  have h1: "register_user (env_at 1) (init_database None) alice = (db_alice, Inr 1)"
    by (simp add: db_alice_def register_user_def init_database_def next_rowid_def)
  have h2: "register_user (env_at 1) db_alice bob = (db_alice_bob, Inr 2)"
    by (simp add: db_alice_bob_def register_user_def users_db_alice bob_def next_rowid_def)
  have h3: "reg_password alice = reg_password bob"
    by (simp add: alice_def bob_def)
  show ?thesis
    using h1 h2 h3 stored_hash_unsalted [OF h1 h2 h3]
    by (simp add: alice_def)
qed

text \<open>
  C3 as the spec states it fails: Alice and Bob register with different emails and the
  same password, and their stored hashes are the same string, the plain SHA-256 digest
  of the password.
\<close>

theorem salted_hash_counterexample:
  "map u_email (users db_alice_bob) = [''alice@example.com'', ''bob@example.com'']
   \<and> map u_password_hash (users db_alice_bob) =
       [''30c952fab122c3f9759f02a6d95c3758b246b4fee239957b2d4fee46e26170c4'',
        ''30c952fab122c3f9759f02a6d95c3758b246b4fee239957b2d4fee46e26170c4'']"
  by (simp add: db_alice_bob_def register_user_def users_db_alice bob_def hash_password_pw
      Let_def)

section \<open>The response generator\<close>

lemma gr_terrestrial:
  "\<exists>ai. generate_response e q ''terrestrial'' = Inr ai
        \<and> Some (response ai) = first_match_response ''terrestrial'' q \<and> r_tier ai = ''terrestrial''"
  by (simp add: generate_response_def first_match_response_def keyword_sets_def getitem_def
      get_default_def responses_def Let_def)

lemma gr_aerial:
  "\<exists>ai. generate_response e q ''aerial'' = Inr ai
        \<and> Some (response ai) = first_match_response ''aerial'' q \<and> r_tier ai = ''aerial''"
  by (simp add: generate_response_def first_match_response_def keyword_sets_def getitem_def
      get_default_def responses_def Let_def)

lemma gr_celestial:
  "\<exists>ai. generate_response e q ''celestial'' = Inr ai
        \<and> Some (response ai) = first_match_response ''celestial'' q \<and> r_tier ai = ''celestial''"
  by (simp add: generate_response_def first_match_response_def keyword_sets_def getitem_def
      get_default_def responses_def Let_def)

lemma lower_eval:
  "lower ''Hello, please HELP me upgrade'' = ''hello, please help me upgrade''"
  "lower ''Analyze my upgrade options'' = ''analyze my upgrade options''"
  "lower ''Predict the weather'' = ''predict the weather''"
  "lower ''hello'' = ''hello''"
  by code_simp+

lemma first_match_examples:
  "first_match_response ''terrestrial'' ''Hello, please HELP me upgrade'' =
     Some (''Hello! I'' @ [CHR 0x27] @ ''m Synova Terrestrial, your free AI assistant. How can I help you today?'')"
  "first_match_response ''aerial'' ''Analyze my upgrade options'' =
     Some (''I'' @ [CHR 0x27] @ ''m analyzing this with advanced AI techniques including pattern recognition and contextual reasoning.'')"
  "first_match_response ''celestial'' ''Predict the weather'' =
     Some ''Applying quantum-inspired algorithms for maximum prediction accuracy...''"
  by (simp_all add: first_match_response_def keyword_sets_def responses_def lower_eval any_in_def
      sublist_Cons_right get_default_def)

text \<open>
  C8: for each of the three tiers and every text, \<^verbatim>\<open>generate_response\<close> returns a
  response, and it is the one the selection rule gives: the text is lower-cased and the
  keyword sets are tried in the order greeting, help, upgrade inquiry, tier keyword
  (analyze/analysis for aerial, quantum/predict for celestial); the first set with a word
  in the text selects the response, and the default response is returned when no set
  matches or the tier has no response of that kind.
\<close>

theorem generate_response_priority:
  assumes "t \<in> {''terrestrial'', ''aerial'', ''celestial''}"
  shows "\<exists>ai. generate_response e q t = Inr ai
           \<and> Some (response ai) = first_match_response t q \<and> r_tier ai = t"
  using assms gr_terrestrial gr_aerial gr_celestial by auto

theorem generate_response_priority_witness:
  "map_sum id response (generate_response (env_at 1) ''Hello, please HELP me upgrade'' ''terrestrial'')
     = Inr (''Hello! I'' @ [CHR 0x27] @ ''m Synova Terrestrial, your free AI assistant. How can I help you today?'')
   \<and> map_sum id response (generate_response (env_at 1) ''Analyze my upgrade options'' ''aerial'')
     = Inr (''I'' @ [CHR 0x27] @ ''m analyzing this with advanced AI techniques including pattern recognition and contextual reasoning.'')
   \<and> map_sum id response (generate_response (env_at 1) ''Predict the weather'' ''celestial'')
     = Inr ''Applying quantum-inspired algorithms for maximum prediction accuracy...''"
  using generate_response_priority [of "''terrestrial''" "env_at 1" "''Hello, please HELP me upgrade''"]
    generate_response_priority [of "''aerial''" "env_at 1" "''Analyze my upgrade options''"]
    generate_response_priority [of "''celestial''" "env_at 1" "''Predict the weather''"]
  by (auto simp add: first_match_examples)

lemma uniform_bounds:
  assumes "a \<le> b" and "0 \<le> u" and "u < 1"
  shows "a \<le> uniform a b u" and "uniform a b u \<le> b"
proof -
  have "0 \<le> (b - a) * u"
    using assms by simp
  then show "a \<le> uniform a b u"
    by (simp add: uniform_def)
  have "(b - a) * u \<le> (b - a) * 1"
    using assms by (intro mult_left_mono) simp_all
  then show "uniform a b u \<le> b"
    by (simp add: uniform_def)
qed

lemma confidence_by_tier:
  "\<exists>ai. generate_response e q ''terrestrial'' = Inr ai
        \<and> confidence ai = uniform 0.6 0.8 (random e 3)"
  "\<exists>ai. generate_response e q ''aerial'' = Inr ai
        \<and> confidence ai = uniform 0.75 0.9 (random e 4)"
  "\<exists>ai. generate_response e q ''celestial'' = Inr ai
        \<and> confidence ai = uniform 0.85 0.95 (random e 5)"
  by (simp_all add: generate_response_def getitem_def responses_def Let_def)

lemma hello_terrestrial:
  "\<exists>ai. generate_response e ''hello'' ''terrestrial'' = Inr ai
     \<and> response ai = ''Hello! I'' @ [CHR 0x27] @ ''m Synova Terrestrial, your free AI assistant. How can I help you today?''
     \<and> confidence ai = uniform 0.6 0.8 (random e 3)"
  by (simp add: generate_response_def getitem_def responses_def Let_def lower_eval any_in_def
      sublist_Cons_right)

text \<open>
  C10: when the random draws are in \<open>[0, 1)\<close>, the terrestrial tier answers ``hello''
  with its greeting string and a confidence between 0.6 and 0.8, and every tier answers
  every text with a confidence between 0 and 1.
\<close>

theorem generate_response_hello_confidence:
  assumes "\<forall>i. 0 \<le> random e i \<and> random e i < 1"
  shows "(\<exists>ai. generate_response e ''hello'' ''terrestrial'' = Inr ai
            \<and> response ai = ''Hello! I'' @ [CHR 0x27] @ ''m Synova Terrestrial, your free AI assistant. How can I help you today?''
            \<and> 0.6 \<le> confidence ai \<and> confidence ai \<le> 0.8)
         \<and> (t \<in> {''terrestrial'', ''aerial'', ''celestial''} \<longrightarrow>
              (\<exists>ai. generate_response e q t = Inr ai \<and> 0 \<le> confidence ai \<and> confidence ai \<le> 1))"
proof -
  have r: "0 \<le> random e i" "random e i < 1" for i
    using assms by simp_all
  have b3: "0.6 \<le> uniform 0.6 0.8 (random e 3)" "uniform 0.6 0.8 (random e 3) \<le> 0.8"
    using uniform_bounds [of "0.6" "0.8" "random e 3"] r by simp_all
  have b4: "0.75 \<le> uniform 0.75 0.9 (random e 4)" "uniform 0.75 0.9 (random e 4) \<le> 0.9"
    using uniform_bounds [of "0.75" "0.9" "random e 4"] r by simp_all
  have b5: "0.85 \<le> uniform 0.85 0.95 (random e 5)" "uniform 0.85 0.95 (random e 5) \<le> 0.95"
    using uniform_bounds [of "0.85" "0.95" "random e 5"] r by simp_all
  have hello: "\<exists>ai. generate_response e ''hello'' ''terrestrial'' = Inr ai
            \<and> response ai = ''Hello! I'' @ [CHR 0x27] @ ''m Synova Terrestrial, your free AI assistant. How can I help you today?''
            \<and> 0.6 \<le> confidence ai \<and> confidence ai \<le> 0.8"
    using hello_terrestrial [of e] b3 by auto
  have t1: "\<exists>ai. generate_response e q ''terrestrial'' = Inr ai \<and> 0 \<le> confidence ai \<and> confidence ai \<le> 1"
    using confidence_by_tier(1) [of e q] b3 by auto
  have t2: "\<exists>ai. generate_response e q ''aerial'' = Inr ai \<and> 0 \<le> confidence ai \<and> confidence ai \<le> 1"
    using confidence_by_tier(2) [of e q] b4 by auto
  have t3: "\<exists>ai. generate_response e q ''celestial'' = Inr ai \<and> 0 \<le> confidence ai \<and> confidence ai \<le> 1"
    using confidence_by_tier(3) [of e q] b5 by auto
  show ?thesis
    using hello t1 t2 t3 by blast
qed

theorem generate_response_hello_confidence_witness:
  "map_sum id response (generate_response (env_at 1) ''hello'' ''terrestrial'')
     = Inr (''Hello! I'' @ [CHR 0x27] @ ''m Synova Terrestrial, your free AI assistant. How can I help you today?'')
   \<and> map_sum id confidence (generate_response (env_at 1) ''hello'' ''terrestrial'') = Inr (7 / 10)
   \<and> map_sum id confidence (generate_response (env_at 1) ''hello'' ''celestial'') = Inr (9 / 10)"
proof -
  have h: "\<forall>i. 0 \<le> random (env_at 1) i \<and> random (env_at 1) i < 1"
    by (simp add: env_at_def)
  have c: "uniform 0.6 0.8 (random (env_at 1) 3) = 7 / 10"
    "uniform 0.85 0.95 (random (env_at 1) 5) = 9 / 10"
    by (simp_all add: uniform_def env_at_def)
  show ?thesis
    using generate_response_hello_confidence [OF h, of "''celestial''" "''hello''"]
      hello_terrestrial [of "env_at 1"] confidence_by_tier(3) [of "env_at 1" "''hello''"] c
    by auto
qed

section \<open>The message log is append-only\<close>









section \<open>The daily quota\<close>

lemma generate_response_valid:
  assumes "t \<in> {''terrestrial'', ''aerial'', ''celestial''}"
  shows "\<exists>ai. generate_response e q t = Inr ai"
  using assms generate_response_terrestrial generate_response_aerial generate_response_celestial
  by auto

text \<open>What a query does to the stored row of a user.\<close>

lemma process_query_free:
  assumes "user_id r = Some uid" and "uid \<noteq> 0" and "tier r = ''terrestrial''"
    and "length (query r) \<le> 200"
  shows "select_user (fst (process_query e db r)) uid = map_option (after_query e) (select_user db uid)"
    and "\<not> isl (snd (process_query e db r)) \<longleftrightarrow> (\<exists>u. select_user db uid = Some u \<and> admitted e u)"
    and "(\<forall>u. select_user db uid = Some u \<longrightarrow> \<not> admitted e u) \<Longrightarrow>
           process_query e db r = (db, Inl (HTTPException 429
             ''Daily message limit reached. Please upgrade or try again tomorrow.''))"
proof -
  obtain ai where g: "generate_response e (query r) ''terrestrial'' = Inr ai"
    using generate_response_terrestrial by blast
  show "select_user (fst (process_query e db r)) uid = map_option (after_query e) (select_user db uid)"
    using assms g
    by (auto simp add: process_query_def getitem_max_lengths verify_user_limits_def
        select_user_update_user after_query_def split: option.splits)
  show "\<not> isl (snd (process_query e db r)) \<longleftrightarrow> (\<exists>u. select_user db uid = Some u \<and> admitted e u)"
    using assms g
    by (auto simp add: process_query_def getitem_max_lengths verify_user_limits_def
        admitted_def split: option.splits)
  show "process_query e db r = (db, Inl (HTTPException 429
             ''Daily message limit reached. Please upgrade or try again tomorrow.''))"
    if "\<forall>u. select_user db uid = Some u \<longrightarrow> \<not> admitted e u"
    using assms g that
    by (auto simp add: process_query_def getitem_max_lengths verify_user_limits_def
        admitted_def split: option.splits)
qed


lemma process_query_rejected_long:
  assumes "tier r = ''terrestrial''" and "\<not> length (query r) \<le> 200"
  shows "fst (process_query e db r) = db" and "isl (snd (process_query e db r))"
  using assms by (simp_all add: process_query_def getitem_max_lengths)

lemma process_query_other:
  assumes "\<not> (user_id r = Some uid \<and> tier r = ''terrestrial'')"
  shows "select_user (fst (process_query e db r)) uid = select_user db uid"
proof (cases "tier r \<in> {''terrestrial'', ''aerial'', ''celestial''}")
  case False
  then show ?thesis
    by (simp add: process_query_def getitem_max_lengths)
next
  case True
  then obtain ai where g: "generate_response e (query r) (tier r) = Inr ai"
    using generate_response_valid by blast
  show ?thesis
  proof (cases "user_id r")
    case None
    with g True show ?thesis
      by (auto simp add: process_query_def getitem_max_lengths)
  next
    case (Some other)
    with g True assms show ?thesis
      by (auto simp add: process_query_def getitem_max_lengths verify_user_limits_def
          select_user_update_user split: option.splits)
  qed
qed

lemma select_user_register:
  assumes "select_user db uid = Some u"
  shows "select_user (fst (register_user e db user)) uid = Some u"
  using assms
  by (auto simp add: register_user_def select_user_def Let_def find_app split: option.splits)

lemma api_select_user:
  assumes "uid \<noteq> 0" and "select_user db uid = Some u"
  shows "select_user (fst (api e db c)) uid =
           Some (if free_success uid e db c then after_query e u else u)"
proof (cases c)
  case (Query r)
  show ?thesis
  proof (cases "user_id r = Some uid \<and> tier r = ''terrestrial''")
    case False
    then show ?thesis
      using assms Query process_query_other [of r uid e db]
      by (auto simp add: free_success_def)
  next
    case mine: True
    show ?thesis
    proof (cases "length (query r) \<le> 200")
      case True
      with mine assms Query process_query_free(1,2) [of r uid e db] show ?thesis
        by (auto simp add: free_success_def after_query_def admitted_def)
    next
      case False
      with mine assms Query process_query_rejected_long [of r e db] show ?thesis
        by (simp add: free_success_def)
    qed
  qed
next
  case (Register user)
  with assms select_user_register [of db uid u e user] show ?thesis
    by (simp add: free_success_def)
qed (use assms in \<open>simp_all add: free_success_def\<close>)

lemma free_success_admitted:
  assumes "uid \<noteq> 0" and "free_success uid e db c"
  shows "\<exists>u. select_user db uid = Some u \<and> admitted e u"
proof (cases c)
  case (Query r)
  with assms(2) have mine: "user_id r = Some uid" "tier r = ''terrestrial''"
    and ok: "\<not> isl (snd (process_query e db r))"
    by (simp_all add: free_success_def)
  have "length (query r) \<le> 200"
    using process_query_rejected_long(2) [of r e db] mine ok by blast
  with process_query_free(2) [of r uid e db] mine assms(1) ok show ?thesis
    by blast
qed (use assms in \<open>simp_all add: free_success_def\<close>)

lemma select_user_in_users: "select_user db uid = Some u \<Longrightarrow> u \<in> set (users db) \<and> u_id u = uid"
  by (auto simp add: select_user_def find_Some_iff)

lemma tracked_step:
  assumes "uid \<noteq> 0" and "tracked D uid k db" and "date (now e) = D"
  shows "tracked D uid (k + (if free_success uid e db c then 1 else 0)) (fst (api e db c))"
proof -
  from assms(2) obtain u where u: "select_user db uid = Some u"
    and d: "D \<le> date (u_last_reset u)" and k: "int k \<le> u_message_count u"
    by (auto simp add: tracked_def split: option.splits)
  show ?thesis
  proof (cases "free_success uid e db c")
    case True
    then have "admitted e u"
      using free_success_admitted [OF assms(1) True] u by simp
    with d assms(3) have "u_message_count u < 50"
      by (simp add: admitted_def)
    with True d k assms(3) show ?thesis
      by (simp add: tracked_def api_select_user [OF assms(1) u] after_query_def)
  next
    case False
    with d k show ?thesis
      by (simp add: tracked_def api_select_user [OF assms(1) u])
  qed
qed

lemma tracked_first:
  assumes "uid \<noteq> 0" and "db_ok db" and "date (now e) = D" and "free_success uid e db c"
  shows "tracked D uid 1 (fst (api e db c))"
proof -
  from free_success_admitted [OF assms(1,4)] obtain u
    where u: "select_user db uid = Some u" and a: "admitted e u"
    by blast
  have "0 \<le> u_message_count u"
    using select_user_in_users [OF u] assms(2) by (auto simp add: db_ok_def list_all_iff)
  with a assms(3,4) show ?thesis
    by (auto simp add: tracked_def api_select_user [OF assms(1) u] after_query_def admitted_def)
qed

lemma tracked_run:
  assumes "uid \<noteq> 0" and "tracked D uid k db" and "list_all (\<lambda>(e, c). date (now e) = D) evs"
  shows "tracked D uid (k + successes uid db evs) (run db evs)"
  using assms(2,3)
proof (induction evs arbitrary: db k)
  case Nil
  then show ?case by simp
next
  case (Cons ev evs)
  obtain e c where ev: "ev = (e, c)" by (cases ev)
  from Cons.prems ev have today: "date (now e) = D" and rest: "list_all (\<lambda>(e, c). date (now e) = D) evs"
    by simp_all
  have "tracked D uid (k + (if free_success uid e db c then 1 else 0)) (fst (api e db c))"
    by (rule tracked_step [OF assms(1) Cons.prems(1) today])
  from Cons.IH [OF this rest] show ?case
    by (simp add: ev add.assoc)
qed


lemma db_ok_update_user:
  assumes "db_ok db"
    and "\<And>u. 1 \<le> u_id u \<Longrightarrow> 0 \<le> u_message_count u \<Longrightarrow>
           1 \<le> u_id (f u) \<and> 0 \<le> u_message_count (f u)"
  shows "db_ok (update_user f uid db)"
  using assms by (auto simp add: db_ok_def update_user_def list_all_iff)

lemma db_ok_insert_message [simp]: "db_ok (insert_message e uid msg resp t db) = db_ok db"
  by (simp add: db_ok_def)

lemma db_ok_verify_user_limits:
  "db_ok db \<Longrightarrow> db_ok (fst (verify_user_limits e db uid t))"
  by (auto simp add: verify_user_limits_def split: option.splits intro!: db_ok_update_user)

lemma db_ok_process_query:
  assumes "db_ok db"
  shows "db_ok (fst (process_query e db r))"
proof -
  let ?v = "verify_user_limits e db (the (user_id r)) (tier r)"
  have v: "db_ok (fst ?v)"
    by (rule db_ok_verify_user_limits [OF assms])
  have b: "db_ok (update_user (\<lambda>r. r\<lparr>u_message_count := u_message_count r + 1\<rparr>) uid d)"
    if "db_ok d" for d uid
    using that by (rule db_ok_update_user) simp
  show ?thesis
    using assms v b
    by (cases ?v) (auto simp add: process_query_def split: sum.splits)
qed

lemma next_rowid_pos:
  assumes "list_all (\<lambda>i. 1 \<le> i) ids"
  shows "1 \<le> next_rowid ids"
proof (cases "ids = []")
  case True
  then show ?thesis by (simp add: next_rowid_def)
next
  case False
  then have "Max (set ids) \<in> set ids"
    by (intro Max_in) simp_all
  with assms have "1 \<le> Max (set ids)"
    by (simp add: list_all_iff)
  with False show ?thesis
    by (simp add: next_rowid_def)
qed

lemma db_ok_register_user:
  assumes "db_ok db"
  shows "db_ok (fst (register_user e db user))"
proof -
  have "list_all (\<lambda>i. 1 \<le> i) (map u_id (users db))"
    using assms by (simp add: db_ok_def list_all_iff)
  then have "1 \<le> next_rowid (map u_id (users db))"
    by (rule next_rowid_pos)
  with assms show ?thesis
    by (auto simp add: register_user_def db_ok_def Let_def split: option.splits)
qed

lemma db_ok_api: "db_ok db \<Longrightarrow> db_ok (fst (api e db c))"
  by (cases c) (simp_all add: db_ok_process_query db_ok_register_user)

lemma db_ok_run: "db_ok db \<Longrightarrow> db_ok (run db evs)"
proof (induction evs arbitrary: db)
  case Nil
  then show ?case by simp
next
  case (Cons ev evs)
  then show ?case
    by (cases ev) (simp add: db_ok_api)
qed

lemma db_ok_init: "db_ok (init_database None)"
  by (simp add: db_ok_def init_database_def)

lemma run_append: "run db (xs @ ys) = run (run db xs) ys"
  by (induction xs arbitrary: db) auto

lemma tracked_mono: "tracked D uid k db \<Longrightarrow> j \<le> k \<Longrightarrow> tracked D uid j db"
  by (auto simp add: tracked_def split: option.splits)

lemma successes_tracked:
  assumes "uid \<noteq> 0" and "db_ok db" and "list_all (\<lambda>(e, c). date (now e) = D) evs"
    and "0 < successes uid db evs"
  shows "tracked D uid (successes uid db evs) (run db evs)"
  using assms(2-)
proof (induction evs arbitrary: db)
  case Nil
  then show ?case by simp
next
  case (Cons ev evs)
  obtain e c where ev: "ev = (e, c)" by (cases ev)
  from Cons.prems ev have today: "date (now e) = D"
    and rest: "list_all (\<lambda>(e, c). date (now e) = D) evs"
    by simp_all
  show ?case
  proof (cases "free_success uid e db c")
    case True
    have "tracked D uid 1 (fst (api e db c))"
      by (rule tracked_first [OF assms(1) Cons.prems(1) today True])
    from tracked_run [OF assms(1) this rest] True show ?thesis
      by (simp add: ev)
  next
    case False
    with Cons.prems(3) have "0 < successes uid (fst (api e db c)) evs"
      by (simp add: ev)
    from Cons.IH [OF db_ok_api [OF Cons.prems(1)] rest this] False show ?thesis
      by (simp add: ev)
  qed
qed

lemma stored_id_pos: "db_ok db \<Longrightarrow> uid \<in> u_id ` set (users db) \<Longrightarrow> uid \<noteq> 0"
  by (auto simp add: db_ok_def list_all_iff)

lemma successes_replicate:
  assumes "uid \<noteq> 0" and "user_id r = Some uid" and "tier r = ''terrestrial''"
    and "length (query r) \<le> 200"
    and "select_user db uid = Some u" and "\<not> date (u_last_reset u) < date (now e)"
    and "u_message_count u + int n \<le> 50"
  shows "successes uid db (replicate n (e, Query r)) = n"
  using assms(5-)
proof (induction n arbitrary: db u)
  case 0
  then show ?case by simp
next
  case (Suc n)
  have adm: "admitted e u"
    using Suc.prems(3) by (simp add: admitted_def)
  have s: "free_success uid e db (Query r)"
    using process_query_free(2) [OF assms(2) assms(1) assms(3,4), of e db] Suc.prems(1) adm assms(2,3)
    by (simp add: free_success_def)
  have u': "select_user (fst (api e db (Query r))) uid = Some (after_query e u)"
    using api_select_user [OF assms(1) Suc.prems(1), of e "Query r"] s by simp
  have a: "after_query e u = u\<lparr>u_message_count := u_message_count u + 1\<rparr>"
    using Suc.prems(2,3) by (simp add: after_query_def)
  have "successes uid (fst (api e db (Query r))) (replicate n (e, Query r)) = n"
    using Suc.prems(2,3) by (intro Suc.IH [OF u']) (simp_all add: a)
  with s show ?case
    by simp
qed

lemma run_register_alice: "run (init_database None) [(env_at 1, Register alice)] = db_alice"
  by (simp add: db_alice_def)

lemma fifty_successes:
  "successes 1 db_alice (replicate 50 (env_at 1, Query hi_request)) = 50"
proof -
  let ?u = "\<lparr>u_id = 1, u_email = ''alice@example.com'', u_password_hash = hash_password ''pw'',
       u_tier = ''terrestrial'', u_created_at = \<lparr>day = 1, micros = 0\<rparr>,
       u_message_count = 0, u_last_reset = \<lparr>day = 1, micros = 0\<rparr>\<rparr>"
  have u: "select_user db_alice 1 = Some ?u"
    by (simp add: select_user_def users_db_alice)
  show ?thesis
    by (rule successes_replicate [OF _ _ _ _ u]) (simp_all add: hi_request_def env_at_def date_def)
qed

text \<open>
  C1: start from a fresh database and let any calls happen. If then, among calls that
  all happen on one day, a stored user has 50 successful free-tier queries, the next
  free-tier query of that user on that day is rejected: it returns an HTTP error and not a
  response, the database stays as it is, and the error is the 429 quota error whenever the
  text passes the length check that comes first.
\<close>

theorem daily_quota_enforced:
  assumes "\<forall>(e, c) \<in> set today. date (now e) = D"
    and "50 \<le> successes uid (run (init_database None) history) today"
    and "uid \<in> u_id ` set (users (run (init_database None) (history @ today)))"
    and "date (now e) = D"
    and "user_id request = Some uid" and "tier request = ''terrestrial''"
  shows "fst (process_query e (run (init_database None) (history @ today)) request)
           = run (init_database None) (history @ today)
         \<and> (\<exists>code detail.
               snd (process_query e (run (init_database None) (history @ today)) request)
                 = Inl (HTTPException code detail))
         \<and> (length (query request) \<le> 200 \<longrightarrow>
               snd (process_query e (run (init_database None) (history @ today)) request)
                 = Inl (HTTPException 429
                     ''Daily message limit reached. Please upgrade or try again tomorrow.''))"
proof (cases "length (query request) \<le> 200")
  case False
  then show ?thesis
    by (simp add: process_query_def getitem_max_lengths assms(6))
next
  case True
  let ?before = "run (init_database None) history"
  let ?after = "run (init_database None) (history @ today)"
  have ok0: "db_ok ?before"
    by (rule db_ok_run [OF db_ok_init])
  have ok: "db_ok ?after"
    by (rule db_ok_run [OF db_ok_init])
  have uid: "uid \<noteq> 0"
    by (rule stored_id_pos [OF ok assms(3)])
  have today: "list_all (\<lambda>(e, c). date (now e) = D) today"
    using assms(1) by (simp add: list_all_iff)
  have "tracked D uid (successes uid ?before today) (run ?before today)"
    using assms(2) by (intro successes_tracked [OF uid ok0 today]) simp
  then have "tracked D uid 50 ?after"
    using assms(2) by (simp add: run_append tracked_mono)
  then have "\<forall>u. select_user ?after uid = Some u \<longrightarrow> \<not> admitted e u"
    using assms(4) by (auto simp add: tracked_def admitted_def split: option.splits)
  then have "process_query e ?after request =
               (?after, Inl (HTTPException 429
                  ''Daily message limit reached. Please upgrade or try again tomorrow.''))"
    by (rule process_query_free(3) [OF assms(5) uid assms(6) True])
  then show ?thesis
    by simp
qed

theorem daily_quota_enforced_witness:
  "successes 1 (run (init_database None) [(env_at 1, Register alice)])
     (replicate 50 (env_at 1, Query hi_request)) = 50
   \<and> process_query (env_at 1)
        (run (init_database None)
           ([(env_at 1, Register alice)] @ replicate 50 (env_at 1, Query hi_request)))
        hi_request
      = (run (init_database None)
           ([(env_at 1, Register alice)] @ replicate 50 (env_at 1, Query hi_request)),
         Inl (HTTPException 429
           ''Daily message limit reached. Please upgrade or try again tomorrow.''))"
proof -
  let ?today = "replicate 50 (env_at 1, Query hi_request)"
  let ?history = "[(env_at 1, Register alice)]"
  have h1: "\<forall>(e, c) \<in> set ?today. date (now e) = 1"
    by (simp add: env_at_def date_def)
  have h2: "50 \<le> successes 1 (run (init_database None) ?history) ?today"
    by (simp only: run_register_alice fifty_successes)
  have ok: "db_ok db_alice"
    by (simp add: db_ok_def users_db_alice)
  have all: "list_all (\<lambda>(e, c). date (now e) = 1) ?today"
    by (simp add: list_all_iff env_at_def date_def)
  have pos: "0 < successes 1 db_alice ?today"
    by (simp add: fifty_successes)
  have t: "tracked 1 1 (successes 1 db_alice ?today) (run db_alice ?today)"
    by (rule successes_tracked [OF _ ok all pos]) simp
  have h3: "1 \<in> u_id ` set (users (run (init_database None) (?history @ ?today)))"
  proof -
    from t obtain u where "select_user (run db_alice ?today) 1 = Some u"
      by (auto simp add: tracked_def split: option.splits)
    from select_user_in_users [OF this]
    have "1 \<in> u_id ` set (users (run db_alice ?today))"
      by force
    then show ?thesis
      by (simp only: run_append run_register_alice)
  qed
  have h4: "date (now (env_at 1)) = 1"
    by (simp add: env_at_def date_def)
  have h5: "user_id hi_request = Some 1" and h6: "tier hi_request = ''terrestrial''"
    and h7: "length (query hi_request) \<le> 200"
    by (simp_all add: hi_request_def)
  have s: "successes 1 (run (init_database None) ?history) ?today = 50"
    by (simp only: run_register_alice fifty_successes)
  have q: "fst (process_query (env_at 1) (run (init_database None) (?history @ ?today))
             hi_request) = run (init_database None) (?history @ ?today)"
    "snd (process_query (env_at 1) (run (init_database None) (?history @ ?today))
             hi_request) = Inl (HTTPException 429
           ''Daily message limit reached. Please upgrade or try again tomorrow.'')"
    using daily_quota_enforced [OF h1 h2 h3 h4 h5 h6] h7 by blast+
  have "process_query (env_at 1) (run (init_database None) (?history @ ?today)) hi_request
          = (run (init_database None) (?history @ ?today),
             Inl (HTTPException 429
               ''Daily message limit reached. Please upgrade or try again tomorrow.''))"
    by (rule prod_eqI) (simp_all only: fst_conv snd_conv q)
  with s show ?thesis
    by (rule conjI)
qed

end
